theory Spec2Isabelle
  imports Complex_Main "HOL-Library.Sublist"
begin

section \<open>Text\<close>

text \<open>
  Python's \<open>str\<close> is modelled by \<open>string\<close>: a list of characters, each a code point below
  256.  The three text operations the program uses are \<open>str.strip()\<close>, \<open>str.lower()\<close> and
  \<open>str.split(",")\<close>.  An empty string is the only falsy one.
\<close>

definition is_space :: "char \<Rightarrow> bool" where
  "is_space c =
     (let n = (of_char c :: nat)
      in (9 \<le> n \<and> n \<le> 13) \<or> (28 \<le> n \<and> n \<le> 32) \<or> n = 133 \<or> n = 160)"

definition strip :: "string \<Rightarrow> string" where
  "strip t = rev (dropWhile is_space (rev (dropWhile is_space t)))"

definition lower_char :: "char \<Rightarrow> char" where
  "lower_char c =
     (let n = (of_char c :: nat)
      in if (65 \<le> n \<and> n \<le> 90) \<or> (192 \<le> n \<and> n \<le> 222 \<and> n \<noteq> 215)
         then char_of (n + 32) else c)"

definition lower :: "string \<Rightarrow> string" where
  "lower t = map lower_char t"

fun split_on :: "char \<Rightarrow> string \<Rightarrow> string list" where
  "split_on sep [] = [[]]"
| "split_on sep (c # cs) =
     (if c = sep then [] # split_on sep cs
      else (case split_on sep cs of
              [] \<Rightarrow> [[c]]
            | w # ws \<Rightarrow> (c # w) # ws))"

text \<open>Truthiness of an \<open>Optional[str]\<close>: \<open>None\<close> and the empty string are falsy.\<close>

fun truthy :: "string option \<Rightarrow> bool" where
  "truthy None = False"
| "truthy (Some t) = (t \<noteq> [])"

section \<open>Configuration (config.py)\<close>

record settings =
  google_api_key :: string
  google_model :: string
  google_fallback_models :: string
  llm_temperature :: real
  max_tokens :: int

text \<open>The property \<open>Settings.fallback_models_list\<close>:
  \<open>[m.strip() for m in self.google_fallback_models.split(",") if m.strip()]\<close>.\<close>

definition fallback_models_list :: "settings \<Rightarrow> string list" where
  "fallback_models_list s =
     map strip (filter (\<lambda>m. strip m \<noteq> []) (split_on CHR '','' (google_fallback_models s)))"

section \<open>The provider boundary\<close>

text \<open>
  A message handed to the provider (\<open>types.Content\<close> with one text part), the generation
  parameters (\<open>types.GenerateContentConfig\<close>), and what one call of
  \<open>client.aio.models.generate_content\<close> does: it returns a response whose \<open>text\<close> may be
  \<open>None\<close>, or it raises.  Only the class of the exception and its \<open>str(e)\<close> are used by
  the program.  \<open>ResourceExhausted\<close>, \<open>TooManyRequests\<close> and \<open>ServiceUnavailable\<close> stand
  for an instance of that class of \<open>google.api_core.exceptions\<close> (or of a subclass);
  \<open>OtherException\<close> is any other instance of \<open>Exception\<close>.  Cancellation of the running
  task is not modelled.
\<close>

datatype Content = Content (content_role: string) (content_parts: "string list")

record GenerateContentConfig =
  system_instruction :: string
  temperature :: real
  max_output_tokens :: int

datatype exception_class = ResourceExhausted | TooManyRequests | ServiceUnavailable | OtherException

datatype provider_result = Response "string option" | Raises exception_class string

text \<open>
  The provider is outside the program.  A run of \<open>process_query\<close> is described relative to
  a function that gives the result of the \<open>i\<close>-th call of the run (counting from 0) for the
  request that is made: any behaviour of the provider during one run is such a function.
\<close>

type_synonym provider = "nat \<Rightarrow> string \<Rightarrow> Content list \<Rightarrow> GenerateContentConfig \<Rightarrow> provider_result"

text \<open>The effects of a run that can be observed from outside: provider calls (with the model
  they are sent to) and \<open>asyncio.sleep\<close> delays in seconds, in the order they happen.  Log
  lines are not modelled.\<close>

datatype event = GenerateContent string | Sleep nat

fun is_call :: "event \<Rightarrow> bool" where
  "is_call (GenerateContent m) = True"
| "is_call (Sleep d) = False"

definition calls_made :: "event list \<Rightarrow> nat" where
  "calls_made tr = length (filter is_call tr)"

definition calls_to :: "string \<Rightarrow> event list \<Rightarrow> nat" where
  "calls_to m tr = length (filter (\<lambda>e. e = GenerateContent m) tr)"

fun sleeps :: "event list \<Rightarrow> nat list" where
  "sleeps [] = []"
| "sleeps (GenerateContent m # tr) = sleeps tr"
| "sleeps (Sleep d # tr) = d # sleeps tr"

fun called_models :: "event list \<Rightarrow> string list" where
  "called_models [] = []"
| "called_models (GenerateContent m # tr) = m # called_models tr"
| "called_models (Sleep d # tr) = called_models tr"

section \<open>The agent (agent/agent.py)\<close>

record Message =
  role :: string
  content :: string

record agent =
  system_prompt :: string
  generation_config :: GenerateContentConfig
  model_names :: "string list"
  max_retries :: nat
  base_retry_delay :: nat

datatype py_error = ValueError string

text \<open>\<open>CognizanceAgent.__init__\<close>.  The system prompt is a fixed text built from the static
  festival data; it is a parameter here.\<close>

definition CognizanceAgent :: "settings \<Rightarrow> string \<Rightarrow> py_error + agent" where
  "CognizanceAgent s prompt =
     (if google_api_key s = [] then Inl (ValueError ''GOOGLE_API_KEY is not set in environment variables'')
      else Inr \<lparr> system_prompt = prompt,
                 generation_config = \<lparr> system_instruction = prompt,
                                        temperature = llm_temperature s,
                                        max_output_tokens = max_tokens s \<rparr>,
                 model_names = google_model s # fallback_models_list s,
                 max_retries = 3,
                 base_retry_delay = 1 \<rparr>)"

text \<open>\<open>_build_history\<close>: \<open>user\<close> and \<open>system\<close> are kept, \<open>assistant\<close> and every other role
  become \<open>model\<close>.\<close>

definition build_role :: "string \<Rightarrow> string" where
  "build_role r =
     (let raw_role = lower r
      in if raw_role = ''user'' then ''user''
         else if raw_role = ''assistant'' then ''model''
         else if raw_role = ''system'' then ''system''
         else ''model'')"

definition build_history :: "Message list option \<Rightarrow> Content list" where
  "build_history chat_history =
     (case chat_history of
        None \<Rightarrow> []
      | Some msgs \<Rightarrow> map (\<lambda>msg. Content (build_role (role msg)) [content msg]) msgs)"

text \<open>The dictionary \<open>process_query\<close> returns; a key that is absent is \<open>None\<close>.\<close>

record query_result =
  success :: bool
  response :: "string option"
  model_used :: "string option"
  error :: "string option"

record run_state =
  trace :: "event list"
  last_error :: "string option"

definition is_capacity :: "exception_class \<Rightarrow> bool" where
  "is_capacity cls = (cls = ResourceExhausted \<or> cls = TooManyRequests \<or> cls = ServiceUnavailable)"

definition terminal_message :: "string \<Rightarrow> string" where
  "terminal_message detail =
     ''I apologize, but I encountered an error processing your request. '' @
     ''Please try again or contact our support team.'' @ [CHR 0x0A, CHR 0x0A] @
     ''Error: '' @ detail"

definition exhausted_message :: string where
  "exhausted_message =
     ''All available models have hit their quota limits right now. '' @
     ''Please try again in a few minutes.''"

text \<open>
  The inner loop \<open>for attempt in range(self.max_retries)\<close> for one model, over the attempt
  indices that are left.  \<open>Some r\<close>: the function returns \<open>r\<close>.  \<open>None\<close>: the loop has ended,
  by \<open>break\<close> or because the range is used up, and the next model is tried.
\<close>

fun retry_loop ::
  "agent \<Rightarrow> provider \<Rightarrow> Content list \<Rightarrow> GenerateContentConfig \<Rightarrow> string \<Rightarrow> nat list \<Rightarrow>
   run_state \<Rightarrow> query_result option \<times> run_state" where
  "retry_loop a prov contents config model_name [] st = (None, st)"
| "retry_loop a prov contents config model_name (attempt # rest) st =
     (if model_name = [] then retry_loop a prov contents config model_name rest st
      else
        (case prov (calls_made (trace st)) model_name contents config of
           Response answer \<Rightarrow>
             (Some \<lparr> success = True, response = answer,
                     model_used = Some model_name, error = None \<rparr>,
              st\<lparr> trace := trace st @ [GenerateContent model_name] \<rparr>)
         | Raises cls e \<Rightarrow>
             if is_capacity cls then
               (if attempt < max_retries a - 1 then
                  retry_loop a prov contents config model_name rest
                    \<lparr> trace = trace st @ [GenerateContent model_name,
                                           Sleep (base_retry_delay a * 2 ^ attempt)],
                      last_error = Some e \<rparr>
                else
                  (None, \<lparr> trace = trace st @ [GenerateContent model_name],
                           last_error = Some e \<rparr>))
             else
               (Some \<lparr> success = False, response = Some (terminal_message e),
                       model_used = None, error = Some e \<rparr>,
                st\<lparr> trace := trace st @ [GenerateContent model_name] \<rparr>)))"

text \<open>The outer loop \<open>for model_name in model_candidates\<close> and the code after it.\<close>

fun model_loop ::
  "agent \<Rightarrow> provider \<Rightarrow> Content list \<Rightarrow> GenerateContentConfig \<Rightarrow> string list \<Rightarrow>
   run_state \<Rightarrow> query_result \<times> run_state" where
  "model_loop a prov contents config [] st =
     (\<lparr> success = False, response = Some exhausted_message, model_used = None,
        error = Some (case last_error st of
                        Some e \<Rightarrow> e
                      | None \<Rightarrow> ''Quota exceeded on all models'') \<rparr>, st)"
| "model_loop a prov contents config (model_name # models) st =
     (case retry_loop a prov contents config model_name [0 ..< max_retries a] st of
        (Some r, st') \<Rightarrow> (r, st')
      | (None, st') \<Rightarrow> model_loop a prov contents config models st')"

definition model_candidates :: "agent \<Rightarrow> string option \<Rightarrow> string list" where
  "model_candidates a preferred_model =
     (if truthy preferred_model then [the preferred_model] else model_names a)"

definition effective_config ::
  "settings \<Rightarrow> agent \<Rightarrow> real option \<Rightarrow> int option \<Rightarrow> GenerateContentConfig" where
  "effective_config s a temp max_out =
     (if temp \<noteq> None \<or> max_out \<noteq> None then
        \<lparr> system_instruction = system_prompt a,
          temperature = (case temp of Some t \<Rightarrow> t | None \<Rightarrow> llm_temperature s),
          max_output_tokens = (case max_out of Some m \<Rightarrow> m | None \<Rightarrow> max_tokens s) \<rparr>
      else generation_config a)"

definition request_contents :: "string \<Rightarrow> Message list option \<Rightarrow> Content list" where
  "request_contents user_input chat_history =
     build_history chat_history @ [Content ''user'' [user_input]]"

definition process_query ::
  "settings \<Rightarrow> agent \<Rightarrow> provider \<Rightarrow> string \<Rightarrow> Message list option \<Rightarrow> string option \<Rightarrow>
   real option \<Rightarrow> int option \<Rightarrow> query_result \<times> run_state" where
  "process_query s a prov user_input chat_history preferred_model temp max_out =
     model_loop a prov (request_contents user_input chat_history)
       (effective_config s a temp max_out) (model_candidates a preferred_model)
       \<lparr> trace = [], last_error = None \<rparr>"

text \<open>\<open>get_agent\<close> keeps the agent it has built in a module variable.  The agent is a
  function of the settings, which do not change, so the variable is not modelled.\<close>

definition get_agent :: "settings \<Rightarrow> string \<Rightarrow> py_error + agent" where
  "get_agent s prompt = CognizanceAgent s prompt"

section \<open>The chat handler (api/routes.py)\<close>

definition MAX_TURNS :: nat where
  "MAX_TURNS = 15"

definition KEEP_LAST :: nat where
  "KEEP_LAST = 8"

definition SUMMARY_TTL_SECONDS :: real where
  "SUMMARY_TTL_SECONDS = 6 * 3600"

text \<open>
  \<open>SUMMARY_CACHE\<close> is a dictionary from conversation identifiers to entries.  Every entry
  is written by the summarization job with both keys, so an entry is a record and the
  defaults of \<open>entry.get\<close> are not needed.  Timestamps (\<open>time.time()\<close>) are real numbers;
  the rounding of floating-point addition is not modelled.
\<close>

record cache_entry =
  summary :: string
  expires_at :: real

type_synonym summary_cache = "string \<rightharpoonup> cache_entry"

record ChatRequest =
  message :: string
  chat_history :: "Message list option"
  conversation_id :: "string option"

text \<open>A background task: the arguments \<open>(conv_id, older_turns)\<close> given to
  \<open>background_tasks.add_task(_schedule_summarization, ...)\<close>.\<close>

type_synonym task = "string option \<times> Message list"

text \<open>
  Lines 147 to 227 of \<open>chat\<close>: from the request, the cache and the clock to the value of
  \<open>history\<close> that is handed to \<open>process_query\<close>, the cache afterwards and the background
  tasks that were added.  The slices \<open>full_history[: len - KEEP_LAST]\<close> and
  \<open>full_history[len - KEEP_LAST :]\<close> are taken only when \<open>len > MAX_TURNS\<close>, where
  \<open>len - KEEP_LAST\<close> is positive.
\<close>

definition compact_history ::
  "summary_cache \<Rightarrow> real \<Rightarrow> ChatRequest \<Rightarrow> Message list option \<times> summary_cache \<times> task list" where
  "compact_history cache now req =
     (case chat_history req of
        None \<Rightarrow> (None, cache, [])
      | Some full_history \<Rightarrow>
          if full_history = [] then (None, cache, [])
          else if length full_history > MAX_TURNS then
            (let older = take (length full_history - KEEP_LAST) full_history;
                 recent = drop (length full_history - KEEP_LAST) full_history
             in if truthy (conversation_id req) \<and> the (conversation_id req) \<in> dom cache then
                  (let entry = the (cache (the (conversation_id req)))
                   in if expires_at entry > now then
                        (Some (\<lparr> role = ''assistant'', content = summary entry \<rparr> # recent),
                         cache, [])
                      else
                        (Some recent, cache (the (conversation_id req) := None), []))
                else
                  (Some recent, cache, [(conversation_id req, older)]))
          else (Some full_history, cache, []))"

definition summary_prompt :: string where
  "summary_prompt =
     ''Please summarize the preceding conversation into 2-3 short '' @
     ''sentences focusing on user goals, important facts, and any '' @
     ''unresolved issues. Keep the summary concise.''"

definition cheaper_model :: "settings \<Rightarrow> string" where
  "cheaper_model s =
     (if fallback_models_list s \<noteq> [] then last (fallback_models_list s) else google_model s)"

text \<open>The coroutine \<open>_do\<close> of \<open>_schedule_summarization\<close>; \<open>now\<close> is the clock when the entry
  is written.  It returns the cache afterwards and the effects of its \<open>process_query\<close>.\<close>

definition summarization_do ::
  "settings \<Rightarrow> agent \<Rightarrow> provider \<Rightarrow> real \<Rightarrow> string option \<Rightarrow> Message list \<Rightarrow> summary_cache \<Rightarrow>
   summary_cache \<times> event list" where
  "summarization_do s a prov now conv_id older_turns cache =
     (let (summary_result, st) =
            process_query s a prov summary_prompt (Some older_turns) (Some (cheaper_model s))
              (Some 0.2) (Some 200)
      in if success summary_result \<and> truthy (response summary_result) then
           (let summary_text = strip (the (response summary_result))
            in if truthy conv_id then
                 (cache (the conv_id \<mapsto>
                    \<lparr> summary = summary_text, expires_at = now + SUMMARY_TTL_SECONDS \<rparr>),
                  trace st)
               else (cache, trace st))
         else (cache, trace st))"

text \<open>
  \<open>_schedule_summarization\<close> is a plain function (\<open>def\<close>, not \<open>async def\<close>) whose body is
  \<open>asyncio.create_task(_do())\<close> inside \<open>try\<close>.  \<open>asyncio.create_task\<close> needs a running event
  loop in the thread that calls it: there it starts \<open>_do\<close>; in any other thread it raises
  \<open>RuntimeError\<close>, which the helper catches, and nothing happens.
\<close>

datatype thread = EventLoopThread | WorkerThread

definition schedule_summarization ::
  "thread \<Rightarrow> settings \<Rightarrow> agent \<Rightarrow> provider \<Rightarrow> real \<Rightarrow> string option \<Rightarrow> Message list \<Rightarrow>
   summary_cache \<Rightarrow> summary_cache \<times> event list" where
  "schedule_summarization caller s a prov now conv_id older_turns cache =
     (case caller of
        EventLoopThread \<Rightarrow> summarization_do s a prov now conv_id older_turns cache
      | WorkerThread \<Rightarrow> (cache, []))"

text \<open>
  What the framework does with a task added by
  \<open>background_tasks.add_task(_schedule_summarization, conv_id, older)\<close> once the response is
  sent: a callable that is not a coroutine function is run in a worker thread of the
  thread pool (\<open>run_in_threadpool\<close>), so the helper is called outside the event loop.
\<close>

definition run_background_task ::
  "settings \<Rightarrow> agent \<Rightarrow> provider \<Rightarrow> real \<Rightarrow> task \<Rightarrow> summary_cache \<Rightarrow> summary_cache \<times> event list" where
  "run_background_task s a prov now t cache =
     schedule_summarization WorkerThread s a prov now (fst t) (snd t) cache"

datatype ChatResponse = ChatResponse bool string "string option"

datatype http_error = HTTPException nat

record chat_outcome =
  reply :: "http_error + ChatResponse"
  history_sent :: "Message list option"
  cache_after :: summary_cache
  background_tasks :: "task list"
  provider_trace :: "event list"

text \<open>
  The handler \<open>chat\<close>.  Every exception inside it becomes \<open>HTTPException\<close> with status 500:
  the agent cannot be built, or \<open>ChatResponse\<close> rejects a response text that is \<open>None\<close>.
  Besides the reply, the outcome records what the handler did: the history it handed to
  \<open>process_query\<close> (\<open>None\<close> when it did not get that far), the cache afterwards, the
  background tasks it added and the provider calls and delays of its \<open>process_query\<close>.
\<close>

definition chat ::
  "settings \<Rightarrow> string \<Rightarrow> provider \<Rightarrow> real \<Rightarrow> summary_cache \<Rightarrow> ChatRequest \<Rightarrow> chat_outcome" where
  "chat s prompt prov now cache req =
     (case get_agent s prompt of
        Inl e \<Rightarrow>
          \<lparr> reply = Inl (HTTPException 500), history_sent = None, cache_after = cache,
            background_tasks = [], provider_trace = [] \<rparr>
      | Inr a \<Rightarrow>
          (let (history, cache', tasks) = compact_history cache now req;
               (result, st) = process_query s a prov (message req) history None None None
           in \<lparr> reply = (case response result of
                           None \<Rightarrow> Inl (HTTPException 500)
                         | Some text \<Rightarrow> Inr (ChatResponse (success result) text (error result))),
                history_sent = history, cache_after = cache', background_tasks = tasks,
                provider_trace = trace st \<rparr>))"

section \<open>Vocabulary for the properties\<close>

text \<open>
  What a provider result is for the retry loop: a capacity failure (one of the three
  exception classes the loop retries on), or a result that ends the run, and then the
  dictionary the run returns for it.
\<close>

fun capacity_failure :: "provider_result \<Rightarrow> bool" where
  "capacity_failure (Response answer) = False"
| "capacity_failure (Raises cls e) = is_capacity cls"

text \<open>The \<open>str(e)\<close> of the exception a call raised.\<close>

fun raised_text :: "provider_result \<Rightarrow> string option" where
  "raised_text (Response answer) = None"
| "raised_text (Raises cls e) = Some e"

fun settled :: "string \<Rightarrow> provider_result \<Rightarrow> query_result" where
  "settled m (Response answer) =
     \<lparr> success = True, response = answer, model_used = Some m, error = None \<rparr>"
| "settled m (Raises cls e) =
     \<lparr> success = False, response = Some (terminal_message e), model_used = None, error = Some e \<rparr>"

text \<open>The candidates that are called at all: an empty model name is skipped by
  \<open>if not model_name: continue\<close>.\<close>

definition named :: "string list \<Rightarrow> string list" where
  "named cs = filter (\<lambda>m. m \<noteq> []) cs"

text \<open>The effects of \<open>n\<close> failed attempts on model \<open>m\<close>, each followed by its backoff delay
  (the base delay is 1), and the effects of a model that uses up all three attempts.\<close>

definition budget_trace :: "string \<Rightarrow> nat \<Rightarrow> event list" where
  "budget_trace m n = concat (map (\<lambda>k. [GenerateContent m, Sleep (2 ^ k)]) [0..<n])"

definition exhausted_trace :: "string \<Rightarrow> event list" where
  "exhausted_trace m = [GenerateContent m, Sleep 1, GenerateContent m, Sleep 2, GenerateContent m]"

section \<open>An example configuration and example providers\<close>

definition example_settings :: settings where
  "example_settings =
     \<lparr> google_api_key = ''key'', google_model = ''A'', google_fallback_models = ''B'',
       llm_temperature = 0.7, max_tokens = 2000 \<rparr>"

definition example_agent :: agent where
  "example_agent =
     \<lparr> system_prompt = ''P'',
       generation_config = \<lparr> system_instruction = ''P'', temperature = 0.7,
                              max_output_tokens = 2000 \<rparr>,
       model_names = [''A'', ''B''], max_retries = 3, base_retry_delay = 1 \<rparr>"

definition two_failures :: provider where
  "two_failures i m c g = (if i < 2 then Raises ResourceExhausted ''429'' else Response (Some ''hi''))"

definition first_model_down :: provider where
  "first_model_down i m c g =
     (if m = ''A'' then Raises ServiceUnavailable ''503'' else Response (Some ''hi''))"

definition broken :: provider where
  "broken i m c g = Raises OtherException ''boom''"

definition all_down :: provider where
  "all_down i m c g = Raises TooManyRequests (''429 '' @ m)"

definition anon_down :: provider where
  "anon_down i m c g = Raises TooManyRequests ''429 quota''"

text \<open>A provider that answers with the messages it was given, each as \<open>role:text;\<close>.\<close>

definition echo :: provider where
  "echo i m c g =
     Response (Some (concat (map (\<lambda>x. content_role x @ '':'' @ concat (content_parts x) @ '';'') c)))"

definition turn :: "string \<Rightarrow> Message" where
  "turn t = \<lparr> role = ''user'', content = t \<rparr>"

definition older_turns :: "Message list" where
  "older_turns = [turn ''t1'', turn ''t2'', turn ''t3'', turn ''t4'',
                  turn ''t5'', turn ''t6'', turn ''t7'', turn ''t8'']"

definition recent_turns :: "Message list" where
  "recent_turns = [turn ''t9'', turn ''t10'', turn ''t11'', turn ''t12'',
                   turn ''t13'', turn ''t14'', turn ''t15'', turn ''t16'']"

definition long_request :: "string option \<Rightarrow> ChatRequest" where
  "long_request cid =
     \<lparr> message = ''q'', chat_history = Some (older_turns @ recent_turns), conversation_id = cid \<rparr>"

definition short_request :: ChatRequest where
  "short_request =
     \<lparr> message = ''q'', chat_history = Some recent_turns, conversation_id = Some ''c'' \<rparr>"

definition expired_cache :: summary_cache where
  "expired_cache = [''c'' \<mapsto> \<lparr> summary = ''old summary'', expires_at = 50 \<rparr>]"

definition fresh_cache :: summary_cache where
  "fresh_cache = [''c'' \<mapsto> \<lparr> summary = ''old summary'', expires_at = 150 \<rparr>]"

definition answering :: provider where
  "answering i m c g = Response (Some '' a summary '')"

section \<open>The retry and failover loops\<close>

lemma upt_3: "[0..<3] = [0, 1, 2]"
  by (simp add: upt_rec)

lemma calls_made_simps [simp]:
  "calls_made [] = 0"
  "calls_made (tr @ tr') = calls_made tr + calls_made tr'"
  "calls_made (GenerateContent m # tr) = Suc (calls_made tr)"
  "calls_made (Sleep d # tr) = calls_made tr"
  by (simp_all add: calls_made_def)

lemma agent_built:
  assumes "CognizanceAgent s prompt = Inr a"
  shows "max_retries a = 3" and "base_retry_delay a = 1"
    and "model_names a = google_model s # fallback_models_list s"
    and "google_api_key s \<noteq> []"
  using assms by (auto simp: CognizanceAgent_def split: if_splits)

lemma retry_loop_no_model: "retry_loop a prov c g [] attempts st = (None, st)"
  by (induction attempts) simp_all

lemma retry_loop_exhausted:
  assumes a: "max_retries a = 3" "base_retry_delay a = 1" and m: "m \<noteq> []"
    and f: "\<And>i. i < 3 \<Longrightarrow> \<exists>cls e. prov (calls_made (trace st) + i) m c g = Raises cls e \<and> is_capacity cls"
  shows "\<exists>cls e. prov (calls_made (trace st) + 2) m c g = Raises cls e \<and>
           retry_loop a prov c g m [0..<3] st =
             (None, \<lparr> trace = trace st @ [GenerateContent m, Sleep 1, GenerateContent m, Sleep 2,
                                           GenerateContent m],
                      last_error = Some e \<rparr>)"
proof -
  from f[of 0] obtain c0 e0 where r0: "prov (calls_made (trace st)) m c g = Raises c0 e0" "is_capacity c0" by auto
  from f[of 1] obtain c1 e1 where r1: "prov (Suc (calls_made (trace st))) m c g = Raises c1 e1" "is_capacity c1" by auto
  from f[of 2] obtain c2 e2 where r2: "prov (Suc (Suc (calls_made (trace st)))) m c g = Raises c2 e2" "is_capacity c2"
    by (auto simp: numeral_2_eq_2)
  show ?thesis using a m r0 r1 r2 by (simp add: upt_3 numeral_2_eq_2)
qed

lemma capacity_failure_iff:
  "capacity_failure r \<longleftrightarrow> (\<exists>cls e. r = Raises cls e \<and> is_capacity cls)"
  by (cases r) auto

lemma retry_loop_exhausted':
  assumes a: "max_retries a = 3" "base_retry_delay a = 1" and m: "m \<noteq> []"
    and f: "\<And>i. i < 3 \<Longrightarrow> capacity_failure (prov (calls_made (trace st) + i) m c g)"
  shows "\<exists>cls e. prov (calls_made (trace st) + 2) m c g = Raises cls e \<and>
           retry_loop a prov c g m [0..<3] st =
             (None, \<lparr> trace = trace st @ exhausted_trace m, last_error = Some e \<rparr>)"
  unfolding exhausted_trace_def
  by (rule retry_loop_exhausted[OF a m]) (use f in \<open>simp add: capacity_failure_iff\<close>)

lemma retry_loop_settles:
  assumes a: "max_retries a = 3" "base_retry_delay a = 1" and m: "m \<noteq> []" and n: "n < 3"
    and f: "\<And>i. i < n \<Longrightarrow> capacity_failure (prov (calls_made (trace st) + i) m c g)"
    and nc: "\<not> capacity_failure (prov (calls_made (trace st) + n) m c g)"
  shows "\<exists>st'. retry_loop a prov c g m [0..<3] st =
                 (Some (settled m (prov (calls_made (trace st) + n) m c g)), st')
             \<and> trace st' = trace st @ budget_trace m n @ [GenerateContent m]"
proof -
  consider "n = 0" | "n = 1" | "n = 2" using n by linarith
  then show ?thesis
  proof cases
    case 1
    then show ?thesis using a m nc
      by (cases "prov (calls_made (trace st)) m c g") (simp_all add: upt_3 budget_trace_def)
  next
    case 2
    from f[of 0] 2 obtain c0 e0 where r0: "prov (calls_made (trace st)) m c g = Raises c0 e0" "is_capacity c0"
      by (auto simp: capacity_failure_iff)
    show ?thesis using 2 a m nc r0
      by (cases "prov (Suc (calls_made (trace st))) m c g") (simp_all add: upt_3 budget_trace_def)
  next
    case 3
    from f[of 0] 3 obtain c0 e0 where r0: "prov (calls_made (trace st)) m c g = Raises c0 e0" "is_capacity c0"
      by (auto simp: capacity_failure_iff)
    from f[of 1] 3 obtain c1 e1 where r1: "prov (Suc (calls_made (trace st))) m c g = Raises c1 e1" "is_capacity c1"
      by (auto simp: capacity_failure_iff)
    show ?thesis using 3 a m nc r0 r1
      by (cases "prov (Suc (Suc (calls_made (trace st)))) m c g")
         (simp_all add: upt_3 budget_trace_def numeral_2_eq_2)
  qed
qed

lemma model_loop_settles:
  assumes a: "max_retries a = 3" "base_retry_delay a = 1"
  shows "k < 3 * length (named cs) \<Longrightarrow>
         (\<And>i. i < k \<Longrightarrow> capacity_failure (prov (calls_made (trace st) + i) (named cs ! (i div 3)) c g)) \<Longrightarrow>
         \<not> capacity_failure (prov (calls_made (trace st) + k) (named cs ! (k div 3)) c g) \<Longrightarrow>
         fst (model_loop a prov c g cs st) =
           settled (named cs ! (k div 3)) (prov (calls_made (trace st) + k) (named cs ! (k div 3)) c g)
       \<and> trace (snd (model_loop a prov c g cs st)) =
           trace st @ concat (map exhausted_trace (take (k div 3) (named cs)))
             @ budget_trace (named cs ! (k div 3)) (k mod 3) @ [GenerateContent (named cs ! (k div 3))]"
proof (induction cs arbitrary: st k)
  case Nil
  then show ?case by (simp add: named_def)
next
  case (Cons m ms)
  show ?case
  proof (cases "m = []")
    case True
    then have nm: "named (m # ms) = named ms" by (simp add: named_def)
    have ml: "model_loop a prov c g (m # ms) st = model_loop a prov c g ms st"
      using True by (simp add: retry_loop_no_model)
    show ?thesis unfolding nm ml
      by (rule Cons.IH) (use Cons.prems in \<open>simp_all add: nm\<close>)
  next
    case False
    then have nm: "named (m # ms) = m # named ms" by (simp add: named_def)
    show ?thesis
    proof (cases "k < 3")
      case True
      then have k0: "k div 3 = 0" "k mod 3 = k" by simp_all
      have f: "\<And>i. i < k \<Longrightarrow> capacity_failure (prov (calls_made (trace st) + i) m c g)"
        using Cons.prems(2) True by (simp add: nm)
      have nc: "\<not> capacity_failure (prov (calls_made (trace st) + k) m c g)"
        using Cons.prems(3) by (simp add: nm k0)
      from retry_loop_settles[of a m k prov st c g, OF a False True f nc]
      obtain st' where "retry_loop a prov c g m [0..<3] st =
                 (Some (settled m (prov (calls_made (trace st) + k) m c g)), st')"
        and "trace st' = trace st @ budget_trace m k @ [GenerateContent m]" by blast
      then show ?thesis using a by (simp add: nm k0)
    next
      case False
      then obtain k' where k: "k = k' + 3" by (metis add.commute le_Suc_ex not_less)
      have kd: "k div 3 = Suc (k' div 3)" "k mod 3 = k' mod 3" by (simp_all add: k)
      have f3: "\<And>i. i < 3 \<Longrightarrow> capacity_failure (prov (calls_made (trace st) + i) m c g)"
      proof -
        fix i :: nat assume "i < 3"
        then have "i < k" "i div 3 = 0" using k by simp_all
        with Cons.prems(2)[of i] show "capacity_failure (prov (calls_made (trace st) + i) m c g)"
          by (simp add: nm)
      qed
      from retry_loop_exhausted'[of a m prov st c g, OF a \<open>m \<noteq> []\<close> f3]
      obtain cls e where
        rl: "retry_loop a prov c g m [0..<3] st =
               (None, \<lparr> trace = trace st @ exhausted_trace m, last_error = Some e \<rparr>)" by blast
      let ?st = "\<lparr> trace = trace st @ exhausted_trace m, last_error = Some e \<rparr>"
      have cm: "calls_made (trace ?st) = calls_made (trace st) + 3"
        by (simp add: exhausted_trace_def)
      have ml: "model_loop a prov c g (m # ms) st = model_loop a prov c g ms ?st"
        using rl a by simp
      have p1: "k' < 3 * length (named ms)" using Cons.prems(1) by (simp add: nm k)
      have p2: "\<And>i. i < k' \<Longrightarrow>
          capacity_failure (prov (calls_made (trace ?st) + i) (named ms ! (i div 3)) c g)"
      proof -
        fix i assume "i < k'"
        then have "i + 3 < k" by (simp add: k)
        from Cons.prems(2)[OF this] show
          "capacity_failure (prov (calls_made (trace ?st) + i) (named ms ! (i div 3)) c g)"
          unfolding cm by (simp add: nm add.commute add.left_commute)
      qed
      have p3: "\<not> capacity_failure (prov (calls_made (trace ?st) + k') (named ms ! (k' div 3)) c g)"
        using Cons.prems(3) unfolding cm by (simp add: nm k add.commute add.left_commute)
      from Cons.IH[OF p1 p2 p3] show ?thesis
        unfolding ml cm by (simp add: nm kd k add.commute add.left_commute)
    qed
  qed
qed

lemma model_loop_all_exhausted:
  assumes a: "max_retries a = 3" "base_retry_delay a = 1"
  shows "(\<And>i. i < 3 * length (named cs) \<Longrightarrow>
            capacity_failure (prov (calls_made (trace st) + i) (named cs ! (i div 3)) c g)) \<Longrightarrow>
         fst (model_loop a prov c g cs st) =
           \<lparr> success = False, response = Some exhausted_message, model_used = None,
             error = (if named cs = []
                      then Some (case last_error st of Some e \<Rightarrow> e
                                 | None \<Rightarrow> ''Quota exceeded on all models'')
                      else raised_text (prov (calls_made (trace st) + 3 * length (named cs) - 1)
                                          (last (named cs)) c g)) \<rparr>
       \<and> trace (snd (model_loop a prov c g cs st)) =
           trace st @ concat (map exhausted_trace (named cs))"
proof (induction cs arbitrary: st)
  case Nil
  then show ?case by (simp add: named_def)
next
  case (Cons m ms)
  show ?case
  proof (cases "m = []")
    case True
    then have nm: "named (m # ms) = named ms" by (simp add: named_def)
    have ml: "model_loop a prov c g (m # ms) st = model_loop a prov c g ms st"
      using True by (simp add: retry_loop_no_model)
    show ?thesis unfolding nm ml
      by (rule Cons.IH) (use Cons.prems in \<open>simp_all add: nm\<close>)
  next
    case False
    then have nm: "named (m # ms) = m # named ms" by (simp add: named_def)
    have f3: "\<And>i. i < 3 \<Longrightarrow> capacity_failure (prov (calls_made (trace st) + i) m c g)"
    proof -
      fix i :: nat assume i: "i < 3"
      then have "i < 3 * length (named (m # ms))" "i div 3 = 0" by (simp_all add: nm)
      with Cons.prems[of i] show "capacity_failure (prov (calls_made (trace st) + i) m c g)"
        by (simp add: nm)
    qed
    from retry_loop_exhausted'[of a m prov st c g, OF a False f3]
    obtain cls e where
      p2: "prov (calls_made (trace st) + 2) m c g = Raises cls e" and
      rl: "retry_loop a prov c g m [0..<3] st =
             (None, \<lparr> trace = trace st @ exhausted_trace m, last_error = Some e \<rparr>)" by blast
    let ?st = "\<lparr> trace = trace st @ exhausted_trace m, last_error = Some e \<rparr>"
    have cm: "calls_made (trace ?st) = calls_made (trace st) + 3"
      by (simp add: exhausted_trace_def)
    have ml: "model_loop a prov c g (m # ms) st = model_loop a prov c g ms ?st"
      using rl a by simp
    have p: "\<And>i. i < 3 * length (named ms) \<Longrightarrow>
        capacity_failure (prov (calls_made (trace ?st) + i) (named ms ! (i div 3)) c g)"
    proof -
      fix i assume "i < 3 * length (named ms)"
      then have "i + 3 < 3 * length (named (m # ms))" by (simp add: nm)
      from Cons.prems[OF this] show
        "capacity_failure (prov (calls_made (trace ?st) + i) (named ms ! (i div 3)) c g)"
        unfolding cm by (simp add: nm add.commute add.left_commute)
    qed
    have idx: "named ms \<noteq> [] \<Longrightarrow>
       calls_made (trace st) + 3 + 3 * length (named ms) - 1 =
       calls_made (trace st) + 3 * length (named (m # ms)) - 1"
      by (simp add: nm)
    from Cons.IH[OF p] show ?thesis
      unfolding ml cm using p2 idx by (auto simp: nm)
  qed
qed

lemma called_models_append [simp]:
  "called_models (xs @ ys) = called_models xs @ called_models ys"
  by (induction xs rule: called_models.induct) simp_all

lemma called_models_budget [simp]: "called_models (budget_trace m n) = replicate n m"
  by (induction n) (simp_all add: budget_trace_def replicate_append_same)

lemma called_models_exhausted [simp]: "called_models (exhausted_trace m) = replicate 3 m"
  by (simp add: exhausted_trace_def numeral_3_eq_3)

lemma called_models_blocks [simp]:
  "called_models (concat (map exhausted_trace ms)) = concat (map (replicate 3) ms)"
  by (induction ms) simp_all

lemma model_loop_order:
  assumes a: "max_retries a = 3" "base_retry_delay a = 1"
  shows "prefix (called_models (trace (snd (model_loop a prov c g cs st))))
           (called_models (trace st) @ concat (map (replicate 3) (named cs)))"
proof (cases "\<forall>i < 3 * length (named cs).
                capacity_failure (prov (calls_made (trace st) + i) (named cs ! (i div 3)) c g)")
  case True
  then show ?thesis using model_loop_all_exhausted[OF a, of cs prov st c g] by simp
next
  case False
  define P where "P i \<longleftrightarrow> i < 3 * length (named cs) \<and>
     \<not> capacity_failure (prov (calls_made (trace st) + i) (named cs ! (i div 3)) c g)" for i
  from False have "\<exists>i. P i" by (auto simp: P_def)
  then obtain k where k: "P k" and least: "\<And>i. i < k \<Longrightarrow> \<not> P i"
    by (metis exists_least_iff)
  have kb: "k < 3 * length (named cs)" using k by (simp add: P_def)
  have f: "\<And>i. i < k \<Longrightarrow> capacity_failure (prov (calls_made (trace st) + i) (named cs ! (i div 3)) c g)"
    using least kb by (fastforce simp: P_def)
  have nc: "\<not> capacity_failure (prov (calls_made (trace st) + k) (named cs ! (k div 3)) c g)"
    using k by (simp add: P_def)
  let ?q = "k div 3"
  have q: "?q < length (named cs)" using kb by (simp add: less_mult_imp_div_less mult.commute)
  have r: "Suc (k mod 3) \<le> 3" by (simp add: Suc_leI)
  from model_loop_settles[where prov=prov and st=st and c=c and g=g and cs=cs and k=k, OF a kb f nc]
  have tr: "called_models (trace (snd (model_loop a prov c g cs st))) =
      called_models (trace st) @ concat (map (replicate 3) (take ?q (named cs)))
        @ replicate (Suc (k mod 3)) (named cs ! ?q)"
    by (simp add: replicate_append_same)
  have "named cs = take ?q (named cs) @ (named cs ! ?q) # drop (Suc ?q) (named cs)"
    using q by (simp add: id_take_nth_drop)
  then have whole: "concat (map (replicate 3) (named cs)) =
      concat (map (replicate 3) (take ?q (named cs))) @ replicate 3 (named cs ! ?q)
        @ concat (map (replicate 3) (drop (Suc ?q) (named cs)))"
    by (metis concat.simps(2) concat_append list.simps(9) map_append)
  have "prefix (replicate (Suc (k mod 3)) (named cs ! ?q)) (replicate 3 (named cs ! ?q))"
    using r by (metis le_Suc_ex prefixI replicate_add)
  then have "prefix (replicate (Suc (k mod 3)) (named cs ! ?q))
      (replicate 3 (named cs ! ?q) @ concat (map (replicate 3) (drop (Suc ?q) (named cs))))"
    by (rule prefix_prefix)
  then show ?thesis unfolding tr whole by (simp only: same_prefix_prefix)
qed

lemma example_agent_built: "CognizanceAgent example_settings ''P'' = Inr example_agent"
  by (simp add: CognizanceAgent_def example_settings_def example_agent_def
      fallback_models_list_def strip_def is_space_def)

lemma calls_to_simps [simp]:
  "calls_to m [] = 0"
  "calls_to m (tr @ tr') = calls_to m tr + calls_to m tr'"
  "calls_to m (GenerateContent m' # tr) = (if m' = m then Suc (calls_to m tr) else calls_to m tr)"
  "calls_to m (Sleep d # tr) = calls_to m tr"
  by (simp_all add: calls_to_def)

lemma sleeps_append [simp]: "sleeps (xs @ ys) = sleeps xs @ sleeps ys"
  by (induction xs rule: sleeps.induct) simp_all

lemma budget_trace_Suc:
  "budget_trace m (Suc n) = budget_trace m n @ [GenerateContent m, Sleep (2 ^ n)]"
  by (simp add: budget_trace_def)

lemma budget_trace_0 [simp]: "budget_trace m 0 = []"
  by (simp add: budget_trace_def)

lemma calls_to_budget [simp]: "calls_to m' (budget_trace m n) = (if m = m' then n else 0)"
  by (induction n) (simp_all add: budget_trace_Suc)

lemma sleeps_budget [simp]: "sleeps (budget_trace m n) = map (\<lambda>k. 2 ^ k) [0..<n]"
  by (induction n) (simp_all add: budget_trace_Suc)

lemma process_query_settles:
  assumes a: "CognizanceAgent s prompt = Inr a"
    and k: "k < 3 * length (named (model_candidates a preferred_model))"
    and f: "\<And>i. i < k \<Longrightarrow>
              capacity_failure (prov i (named (model_candidates a preferred_model) ! (i div 3))
                (request_contents user_input history) (effective_config s a temp max_out))"
    and nc: "\<not> capacity_failure (prov k (named (model_candidates a preferred_model) ! (k div 3))
                (request_contents user_input history) (effective_config s a temp max_out))"
  shows "fst (process_query s a prov user_input history preferred_model temp max_out) =
           settled (named (model_candidates a preferred_model) ! (k div 3))
             (prov k (named (model_candidates a preferred_model) ! (k div 3))
                (request_contents user_input history) (effective_config s a temp max_out))"
    and "trace (snd (process_query s a prov user_input history preferred_model temp max_out)) =
           concat (map exhausted_trace (take (k div 3) (named (model_candidates a preferred_model))))
             @ budget_trace (named (model_candidates a preferred_model) ! (k div 3)) (k mod 3)
             @ [GenerateContent (named (model_candidates a preferred_model) ! (k div 3))]"
  using model_loop_settles[where a=a and prov=prov and k=k
      and cs="model_candidates a preferred_model"
      and st="\<lparr> trace = [], last_error = None \<rparr>"
      and c="request_contents user_input history" and g="effective_config s a temp max_out",
      OF agent_built(1,2)[OF a]] k f nc
  by (simp_all add: process_query_def)

section \<open>Retry with backoff on one model\<close>

text \<open>
  C2.  The agent is built by \<open>CognizanceAgent\<close> (three attempts per model, base delay 1) and
  \<open>A\<close> is the first candidate, with a name that is not empty.  If the first \<open>N < 3\<close> calls
  to \<open>A\<close> fail with a capacity error and the next one returns, then \<open>process_query\<close>
  returns success with \<open>model_used = A\<close>; the provider is called \<open>N + 1\<close> times on \<open>A\<close> and
  never on another model; and after the failed attempt with index \<open>attempt\<close> (from 0) the run
  sleeps \<open>base_retry_delay * 2 ^ attempt\<close> seconds before it calls \<open>A\<close> again.
\<close>

theorem retry_same_model_until_success:
  assumes "CognizanceAgent s prompt = Inr a"
    and "model_candidates a preferred_model = A # others" and "A \<noteq> []"
    and "N < 3"
    and "\<And>i. i < N \<Longrightarrow>
           capacity_failure (prov i A (request_contents user_input history)
                               (effective_config s a temp max_out))"
    and "prov N A (request_contents user_input history) (effective_config s a temp max_out)
           = Response answer"
  shows "(let (result, st) = process_query s a prov user_input history preferred_model temp max_out
          in result = \<lparr> success = True, response = answer, model_used = Some A, error = None \<rparr>
           \<and> trace st = concat (map (\<lambda>attempt. [GenerateContent A,
                                        Sleep (base_retry_delay a * 2 ^ attempt)]) [0..<N])
                          @ [GenerateContent A]
           \<and> calls_to A (trace st) = N + 1
           \<and> (\<forall>B. B \<noteq> A \<longrightarrow> calls_to B (trace st) = 0)
           \<and> sleeps (trace st) = map (\<lambda>attempt. base_retry_delay a * 2 ^ attempt) [0..<N])"
proof -
  let ?cs = "named (model_candidates a preferred_model)"
  have cs: "?cs = A # named others" using assms(2,3) by (simp add: named_def)
  have k: "N < 3 * length ?cs" using assms(4) by (simp add: cs)
  have idx: "N div 3 = 0" "N mod 3 = N" using assms(4) by simp_all
  have f: "\<And>i. i < N \<Longrightarrow> capacity_failure (prov i (?cs ! (i div 3))
             (request_contents user_input history) (effective_config s a temp max_out))"
    using assms(4,5) by (simp add: cs)
  have nc: "\<not> capacity_failure (prov N (?cs ! (N div 3))
             (request_contents user_input history) (effective_config s a temp max_out))"
    using assms(6) by (simp add: cs idx)
  note r = process_query_settles[where prov=prov and k=N and preferred_model=preferred_model
      and user_input=user_input and history=history and temp=temp and max_out=max_out,
      OF assms(1) k f nc]
  have b: "base_retry_delay a = 1" by (rule agent_built(2)[OF assms(1)])
  show ?thesis using r assms(6)
    by (simp add: split_beta cs idx b budget_trace_def[symmetric])
qed

theorem retry_same_model_until_success_witness:
  "(let (result, st) = process_query example_settings example_agent two_failures ''q'' None None None None
    in result = \<lparr> success = True, response = Some ''hi'', model_used = Some ''A'', error = None \<rparr>
     \<and> trace st = [GenerateContent ''A'', Sleep 1, GenerateContent ''A'', Sleep 2, GenerateContent ''A'']
     \<and> calls_to ''A'' (trace st) = 3 \<and> calls_to ''B'' (trace st) = 0
     \<and> sleeps (trace st) = [1, 2])"
proof -
  have c: "model_candidates example_agent None = ''A'' # [''B'']"
    by (simp add: model_candidates_def example_agent_def)
  have b: "base_retry_delay example_agent = 1" by (simp add: example_agent_def)
  have u: "[0..<2] = [0, Suc 0]" by (simp add: upt_rec)
  show ?thesis
    using retry_same_model_until_success[OF example_agent_built c, where N=2 and prov=two_failures
        and user_input="''q''" and history=None and temp=None and max_out=None
        and answer="Some ''hi''"]
    by (auto simp add: two_failures_def is_capacity_def split_beta b u)
qed

section \<open>Failover, terminal errors and exhaustion\<close>

lemma process_query_order:
  assumes "CognizanceAgent s prompt = Inr a"
  shows "prefix (called_models (trace (snd (process_query s a prov user_input history
                    preferred_model temp max_out))))
           (concat (map (replicate 3) (named (model_candidates a preferred_model))))"
  using model_loop_order[where a=a and prov=prov and cs="model_candidates a preferred_model"
      and st="\<lparr> trace = [], last_error = None \<rparr>"
      and c="request_contents user_input history" and g="effective_config s a temp max_out",
      OF agent_built(1,2)[OF assms]]
  by (simp add: process_query_def)

lemma process_query_exhausted:
  assumes a: "CognizanceAgent s prompt = Inr a"
    and f: "\<And>i. i < 3 * length (named (model_candidates a preferred_model)) \<Longrightarrow>
              capacity_failure (prov i (named (model_candidates a preferred_model) ! (i div 3))
                (request_contents user_input history) (effective_config s a temp max_out))"
  shows "fst (process_query s a prov user_input history preferred_model temp max_out) =
           \<lparr> success = False, response = Some exhausted_message, model_used = None,
             error = (if named (model_candidates a preferred_model) = []
                      then Some ''Quota exceeded on all models''
                      else raised_text
                             (prov (3 * length (named (model_candidates a preferred_model)) - 1)
                                (last (named (model_candidates a preferred_model)))
                                (request_contents user_input history)
                                (effective_config s a temp max_out))) \<rparr>"
    and "trace (snd (process_query s a prov user_input history preferred_model temp max_out)) =
           concat (map exhausted_trace (named (model_candidates a preferred_model)))"
  using model_loop_all_exhausted[where a=a and prov=prov
      and cs="model_candidates a preferred_model"
      and st="\<lparr> trace = [], last_error = None \<rparr>"
      and c="request_contents user_input history" and g="effective_config s a temp max_out",
      OF agent_built(1,2)[OF a]] f
  by (simp_all add: process_query_def)

text \<open>
  C3.  The agent is built by \<open>CognizanceAgent\<close>; \<open>A\<close> and \<open>B\<close> are the first two candidates,
  with names that are not empty.  If all three calls to \<open>A\<close> fail with a capacity error and
  the fourth call of the run, the first to \<open>B\<close>, returns, then \<open>process_query\<close> returns
  success with \<open>model_used = B\<close> after three calls to \<open>A\<close> (with delays 1 and 2 between them)
  and one call to \<open>B\<close>.  Whatever the provider does, the models that are called are called
  in list order: the sequence of called models is a prefix of the candidate list with every
  name repeated three times.
\<close>

theorem failover_to_next_model:
  assumes "CognizanceAgent s prompt = Inr a"
    and "model_candidates a preferred_model = A # B # others" and "A \<noteq> []" and "B \<noteq> []"
    and "\<And>i. i < 3 \<Longrightarrow>
           capacity_failure (prov i A (request_contents user_input history)
                               (effective_config s a temp max_out))"
    and "prov 3 B (request_contents user_input history) (effective_config s a temp max_out)
           = Response answer"
  shows "(let (result, st) = process_query s a prov user_input history preferred_model temp max_out
          in result = \<lparr> success = True, response = answer, model_used = Some B, error = None \<rparr>
           \<and> trace st = [GenerateContent A, Sleep 1, GenerateContent A, Sleep 2, GenerateContent A,
                          GenerateContent B]
           \<and> called_models (trace st) = [A, A, A, B])
       \<and> (\<forall>prov'. prefix
             (called_models (trace (snd (process_query s a prov' user_input history
                                           preferred_model temp max_out))))
             (concat (map (replicate 3) (named (model_candidates a preferred_model)))))"
proof -
  let ?cs = "named (model_candidates a preferred_model)"
  have cs: "?cs = A # B # named others" using assms(2,3,4) by (simp add: named_def)
  have k: "3 < 3 * length ?cs" by (simp add: cs)
  have f: "\<And>i. i < 3 \<Longrightarrow> capacity_failure (prov i (?cs ! (i div 3))
             (request_contents user_input history) (effective_config s a temp max_out))"
    using assms(5) by (simp add: cs)
  have nc: "\<not> capacity_failure (prov 3 (?cs ! (3 div 3))
             (request_contents user_input history) (effective_config s a temp max_out))"
    using assms(6) by (simp add: cs)
  note r = process_query_settles[where prov=prov and k=3 and preferred_model=preferred_model
      and user_input=user_input and history=history and temp=temp and max_out=max_out,
      OF assms(1) k f nc]
  have "(let (result, st) = process_query s a prov user_input history preferred_model temp max_out
          in result = \<lparr> success = True, response = answer, model_used = Some B, error = None \<rparr>
           \<and> trace st = [GenerateContent A, Sleep 1, GenerateContent A, Sleep 2, GenerateContent A,
                          GenerateContent B]
           \<and> called_models (trace st) = [A, A, A, B])"
    using r assms(6) by (simp add: split_beta cs exhausted_trace_def)
  then show ?thesis using process_query_order[OF assms(1)] by blast
qed

theorem failover_to_next_model_witness:
  "(let (result, st) = process_query example_settings example_agent first_model_down ''q'' None
                         None None None
    in result = \<lparr> success = True, response = Some ''hi'', model_used = Some ''B'', error = None \<rparr>
     \<and> trace st = [GenerateContent ''A'', Sleep 1, GenerateContent ''A'', Sleep 2,
                    GenerateContent ''A'', GenerateContent ''B'']
     \<and> calls_to ''A'' (trace st) = 3 \<and> calls_to ''B'' (trace st) = 1)"
proof -
  have c: "model_candidates example_agent None = ''A'' # ''B'' # []"
    by (simp add: model_candidates_def example_agent_def)
  show ?thesis
    using failover_to_next_model[OF example_agent_built c, where prov=first_model_down
        and user_input="''q''" and history=None and temp=None and max_out=None
        and answer="Some ''hi''"]
    by (auto simp add: first_model_down_def is_capacity_def split_beta)
qed

text \<open>
  C4.  The agent is built by \<open>CognizanceAgent\<close> and \<open>A\<close> is the first candidate, with a name
  that is not empty.  If the first call to \<open>A\<close> raises an exception that is not a capacity
  error, \<open>process_query\<close> returns a failure result at once: that call is the only effect
  of the run, so \<open>A\<close> is not tried again, no delay is taken and no other candidate is called.
\<close>

theorem terminal_error_short_circuit:
  assumes "CognizanceAgent s prompt = Inr a"
    and "model_candidates a preferred_model = A # others" and "A \<noteq> []"
    and "prov 0 A (request_contents user_input history) (effective_config s a temp max_out)
           = Raises cls e"
    and "\<not> is_capacity cls"
  shows "(let (result, st) = process_query s a prov user_input history preferred_model temp max_out
          in success result = False \<and> error result = Some e
           \<and> trace st = [GenerateContent A]
           \<and> calls_to A (trace st) = 1
           \<and> (\<forall>B. B \<noteq> A \<longrightarrow> calls_to B (trace st) = 0)
           \<and> sleeps (trace st) = [])"
proof -
  let ?cs = "named (model_candidates a preferred_model)"
  have cs: "?cs = A # named others" using assms(2,3) by (simp add: named_def)
  have k: "0 < 3 * length ?cs" by (simp add: cs)
  have f: "\<And>i. i < 0 \<Longrightarrow> capacity_failure (prov i (?cs ! (i div 3))
             (request_contents user_input history) (effective_config s a temp max_out))"
    by simp
  have nc: "\<not> capacity_failure (prov 0 (?cs ! (0 div 3))
             (request_contents user_input history) (effective_config s a temp max_out))"
    using assms(4,5) by (simp add: cs)
  note r = process_query_settles[where prov=prov and k=0 and preferred_model=preferred_model
      and user_input=user_input and history=history and temp=temp and max_out=max_out,
      OF assms(1) k f nc]
  show ?thesis using r assms(4) by (simp add: split_beta cs)
qed

theorem terminal_error_short_circuit_witness:
  "(let (result, st) = process_query example_settings example_agent broken ''q'' None None None None
    in success result = False \<and> error result = Some ''boom''
     \<and> trace st = [GenerateContent ''A'']
     \<and> calls_to ''A'' (trace st) = 1 \<and> calls_to ''B'' (trace st) = 0
     \<and> sleeps (trace st) = [])"
proof -
  have c: "model_candidates example_agent None = ''A'' # [''B'']"
    by (simp add: model_candidates_def example_agent_def)
  show ?thesis
    using terminal_error_short_circuit[OF example_agent_built c, where prov=broken
        and user_input="''q''" and history=None and temp=None and max_out=None
        and cls=OtherException and e="''boom''"]
    by (auto simp add: broken_def is_capacity_def split_beta)
qed

lemma last_blocks:
  "cs \<noteq> [] \<Longrightarrow> last (concat (map (replicate 3) cs)) = last cs"
proof (induction cs)
  case Nil
  then show ?case by simp
next
  case (Cons m ms)
  show ?case
  proof (cases "ms = []")
    case True
    then show ?thesis by (simp add: numeral_3_eq_3)
  next
    case False
    then have "concat (map (replicate 3) ms) \<noteq> []" by (cases ms) (simp_all add: numeral_3_eq_3)
    then show ?thesis using Cons.IH False by (simp add: last_append)
  qed
qed

lemma terminal_message_embeds: "sublist e (terminal_message e)"
proof -
  have "terminal_message e = terminal_message [] @ e @ []"
    by (simp add: terminal_message_def)
  then show ?thesis by (simp only: sublist_appendI)
qed

text \<open>
  C5.  The claim as stated fails: the text in \<open>response\<close> is built from \<open>str(e)\<close>, so the
  diagnostic detail is embedded in the text shown to the user.  For the provider that
  raises a terminal error with the text \<open>boom\<close>, the \<open>error\<close> field is \<open>boom\<close> and
  \<open>boom\<close> is part of \<open>response\<close>.
\<close>

theorem terminal_detail_embedded_counterexample:
  "error (fst (process_query example_settings example_agent broken ''q'' None None None None))
     = Some ''boom''
   \<and> sublist ''boom''
       (the (response (fst (process_query example_settings example_agent broken ''q'' None
                              None None None))))"
proof -
  have r: "fst (process_query example_settings example_agent broken ''q'' None None None None)
      = \<lparr> success = False, response = Some (terminal_message ''boom''), model_used = None,
          error = Some ''boom'' \<rparr>"
    by (simp add: process_query_def model_candidates_def example_agent_def broken_def upt_3
        is_capacity_def)
  have "sublist ''boom'' (terminal_message ''boom'')"
    by (rule terminal_message_embeds)
  then show ?thesis by (simp only: r query_result.simps option.sel simp_thms)
qed

text \<open>
  C5, as amended.  The agent is built by \<open>CognizanceAgent\<close>.  As long as every call fails
  with a capacity error, call number \<open>i\<close> of a run goes to the candidate with index
  \<open>i div 3\<close> among those with a name.  If call number \<open>k\<close> is made and raises an exception
  that is not a capacity error, with text \<open>e\<close>, then the result is a failure whose
  \<open>response\<close> is a fixed apology followed by \<open>Error: \<close> and \<open>e\<close>, and whose separate \<open>error\<close>
  field is \<open>e\<close>.
\<close>

theorem terminal_failure_result:
  assumes "CognizanceAgent s prompt = Inr a"
    and "k < 3 * length (named (model_candidates a preferred_model))"
    and "\<And>i. i < k \<Longrightarrow>
           capacity_failure (prov i (named (model_candidates a preferred_model) ! (i div 3))
             (request_contents user_input history) (effective_config s a temp max_out))"
    and "prov k (named (model_candidates a preferred_model) ! (k div 3))
           (request_contents user_input history) (effective_config s a temp max_out)
         = Raises cls e"
    and "\<not> is_capacity cls"
  shows "fst (process_query s a prov user_input history preferred_model temp max_out) =
           \<lparr> success = False,
             response = Some (''I apologize, but I encountered an error processing your request. '' @
                              ''Please try again or contact our support team.'' @
                              [CHR 0x0A, CHR 0x0A] @ ''Error: '' @ e),
             model_used = None,
             error = Some e \<rparr>"
proof -
  have nc: "\<not> capacity_failure (prov k (named (model_candidates a preferred_model) ! (k div 3))
             (request_contents user_input history) (effective_config s a temp max_out))"
    using assms(4,5) by simp
  from process_query_settles(1)[where prov=prov and k=k and preferred_model=preferred_model
      and user_input=user_input and history=history and temp=temp and max_out=max_out,
      OF assms(1,2,3) nc]
  show ?thesis using assms(4) by (simp add: terminal_message_def)
qed

theorem terminal_failure_result_witness:
  "fst (process_query example_settings example_agent broken ''q'' None None None None) =
     \<lparr> success = False,
       response = Some (''I apologize, but I encountered an error processing your request. '' @
                        ''Please try again or contact our support team.'' @
                        [CHR 0x0A, CHR 0x0A] @ ''Error: boom''),
       model_used = None,
       error = Some ''boom'' \<rparr>"
proof -
  have c: "named (model_candidates example_agent None) = [''A'', ''B'']"
    by (simp add: model_candidates_def example_agent_def named_def)
  show ?thesis
    using terminal_failure_result[OF example_agent_built, where k=0 and prov=broken
        and preferred_model=None
        and user_input="''q''" and history=None and temp=None and max_out=None
        and cls=OtherException and e="''boom''"]
    by (simp add: c broken_def is_capacity_def)
qed

text \<open>
  C6.  The claim as stated fails in its last part: the \<open>error\<close> field is \<open>str(last_error)\<close>,
  the text of the provider's exception, and the code adds no model name to it.  With the
  candidates \<open>A\<close> and \<open>B\<close> and a provider whose every call raises \<open>TooManyRequests\<close> with
  the text \<open>429 quota\<close>, the last model that is called is \<open>B\<close>, the \<open>error\<close> field is
  \<open>429 quota\<close>, and the name \<open>B\<close> does not occur in it.
\<close>

theorem exhausted_error_names_no_model_counterexample:
  "error (fst (process_query example_settings example_agent anon_down ''q'' None None None None))
     = Some ''429 quota''
   \<and> last (called_models (trace (snd (process_query example_settings example_agent anon_down
                                         ''q'' None None None None)))) = ''B''
   \<and> \<not> sublist
         (last (called_models (trace (snd (process_query example_settings example_agent anon_down
                                             ''q'' None None None None)))))
         (the (error (fst (process_query example_settings example_agent anon_down ''q'' None
                             None None None))))"
proof -
  have r: "process_query example_settings example_agent anon_down ''q'' None None None None
      = (\<lparr> success = False, response = Some exhausted_message, model_used = None,
           error = Some ''429 quota'' \<rparr>,
         \<lparr> trace = [GenerateContent ''A'', Sleep 1, GenerateContent ''A'', Sleep 2,
                    GenerateContent ''A'', GenerateContent ''B'', Sleep 1, GenerateContent ''B'',
                    Sleep 2, GenerateContent ''B''],
           last_error = Some ''429 quota'' \<rparr>)"
    by (simp add: process_query_def model_candidates_def example_agent_def anon_down_def upt_3
        is_capacity_def)
  have n: "\<not> sublist ''B'' ''429 quota''"
    by (simp add: sublist_Cons_right)
  show ?thesis unfolding r using n by simp
qed

text \<open>
  C6, as amended.  The agent is built by \<open>CognizanceAgent\<close> and at least one candidate has
  a name.  If every call of the run fails with a capacity error (three calls for each
  candidate, in list order), then \<open>process_query\<close> returns a failure whose \<open>response\<close> is
  the fixed text about quota limits and whose \<open>error\<close> is the text of the last exception
  raised: the one raised by the third call to the last candidate, which is the last model
  that was called.
\<close>

theorem all_models_exhausted:
  assumes "CognizanceAgent s prompt = Inr a"
    and "named (model_candidates a preferred_model) \<noteq> []"
    and "\<And>i. i < 3 * length (named (model_candidates a preferred_model)) \<Longrightarrow>
           capacity_failure (prov i (named (model_candidates a preferred_model) ! (i div 3))
             (request_contents user_input history) (effective_config s a temp max_out))"
  shows "\<exists>cls e.
           prov (3 * length (named (model_candidates a preferred_model)) - 1)
             (last (named (model_candidates a preferred_model)))
             (request_contents user_input history) (effective_config s a temp max_out)
           = Raises cls e
         \<and> (let (result, st) = process_query s a prov user_input history preferred_model temp max_out
            in result = \<lparr> success = False,
                          response = Some (''All available models have hit their quota limits right now. '' @
                                           ''Please try again in a few minutes.''),
                          model_used = None, error = Some e \<rparr>
             \<and> trace st = concat (map (\<lambda>m. [GenerateContent m, Sleep 1, GenerateContent m, Sleep 2,
                                              GenerateContent m])
                                    (named (model_candidates a preferred_model)))
             \<and> last (called_models (trace st)) = last (named (model_candidates a preferred_model)))"
proof -
  let ?cs = "named (model_candidates a preferred_model)"
  let ?c = "request_contents user_input history"
  let ?g = "effective_config s a temp max_out"
  let ?n = "3 * length ?cs - 1"
  have n: "?n < 3 * length ?cs" using assms(2) by (cases ?cs) simp_all
  have nd: "?n div 3 = length ?cs - 1" using assms(2) by (cases ?cs) simp_all
  have l: "?cs ! (?n div 3) = last ?cs"
    unfolding nd using assms(2) by (simp add: last_conv_nth)
  have "capacity_failure (prov ?n (?cs ! (?n div 3)) ?c ?g)" by (rule assms(3)[OF n])
  then have "capacity_failure (prov ?n (last ?cs) ?c ?g)"
    unfolding l .
  then obtain cls e where e: "prov ?n (last ?cs) ?c ?g = Raises cls e"
    by (auto simp: capacity_failure_iff)
  note r = process_query_exhausted[where prov=prov and preferred_model=preferred_model
      and user_input=user_input and history=history and temp=temp and max_out=max_out,
      OF assms(1,3)]
  let ?run = "process_query s a prov user_input history preferred_model temp max_out"
  have res: "fst ?run = \<lparr> success = False,
                          response = Some (''All available models have hit their quota limits right now. '' @
                                           ''Please try again in a few minutes.''),
                          model_used = None, error = Some e \<rparr>"
    using r(1) e assms(2) by (simp add: exhausted_message_def)
  have l2: "last (called_models (trace (snd ?run))) = last ?cs"
    using r(2) last_blocks[OF assms(2)] by simp
  have tr: "trace (snd ?run) =
      concat (map (\<lambda>m. [GenerateContent m, Sleep 1, GenerateContent m, Sleep 2,
                         GenerateContent m]) ?cs)"
    using r(2) by (simp add: exhausted_trace_def[abs_def])
  have "(let (result, st) = ?run
            in result = \<lparr> success = False,
                          response = Some (''All available models have hit their quota limits right now. '' @
                                           ''Please try again in a few minutes.''),
                          model_used = None, error = Some e \<rparr>
             \<and> trace st = concat (map (\<lambda>m. [GenerateContent m, Sleep 1, GenerateContent m, Sleep 2,
                                              GenerateContent m]) ?cs)
             \<and> last (called_models (trace st)) = last ?cs)"
    unfolding split_beta Let_def using res l2 tr by (intro conjI)
  with e show ?thesis by blast
qed

theorem all_models_exhausted_witness:
  "(let (result, st) = process_query example_settings example_agent all_down ''q'' None None None None
    in result = \<lparr> success = False,
                  response = Some (''All available models have hit their quota limits right now. '' @
                                   ''Please try again in a few minutes.''),
                  model_used = None,
                  error = Some ''429 B'' \<rparr>
     \<and> trace st = [GenerateContent ''A'', Sleep 1, GenerateContent ''A'', Sleep 2, GenerateContent ''A'',
                    GenerateContent ''B'', Sleep 1, GenerateContent ''B'', Sleep 2, GenerateContent ''B''])"
proof -
  have c: "named (model_candidates example_agent None) = [''A'', ''B'']"
    by (simp add: model_candidates_def example_agent_def named_def)
  show ?thesis
    using all_models_exhausted[OF example_agent_built, where prov=all_down
        and preferred_model=None
        and user_input="''q''" and history=None and temp=None and max_out=None]
    by (auto simp add: c all_down_def is_capacity_def split_beta)
qed

section \<open>History compaction and the summary cache\<close>

lemma example_cheaper_model: "cheaper_model example_settings = ''B''"
  by (simp add: cheaper_model_def example_settings_def fallback_models_list_def strip_def
      is_space_def)

lemma older_recent_length [simp]: "length older_turns = 8" "length recent_turns = 8"
  by (simp_all add: older_turns_def recent_turns_def)

lemma compact_history_short:
  assumes "chat_history req = Some h" and "length h \<le> MAX_TURNS"
  shows "compact_history cache now req = (if h = [] then None else Some h, cache, [])"
  using assms by (simp add: compact_history_def)

lemma compact_history_miss:
  assumes "chat_history req = Some h" and "MAX_TURNS < length h"
    and "\<not> truthy (conversation_id req) \<or> the (conversation_id req) \<notin> dom cache"
  shows "compact_history cache now req =
           (Some (drop (length h - KEEP_LAST) h), cache,
            [(conversation_id req, take (length h - KEEP_LAST) h)])"
  using assms by (auto simp add: compact_history_def Let_def MAX_TURNS_def)

lemma compact_history_fresh:
  assumes "chat_history req = Some h" and "MAX_TURNS < length h"
    and "conversation_id req = Some cid" and "cid \<noteq> []"
    and "cache cid = Some entry" and "now < expires_at entry"
  shows "compact_history cache now req =
           (Some (\<lparr> role = ''assistant'', content = summary entry \<rparr> # drop (length h - KEEP_LAST) h),
            cache, [])"
  using assms by (auto simp add: compact_history_def Let_def MAX_TURNS_def)

lemma compact_history_expired:
  assumes "chat_history req = Some h" and "MAX_TURNS < length h"
    and "conversation_id req = Some cid" and "cid \<noteq> []"
    and "cache cid = Some entry" and "expires_at entry \<le> now"
  shows "compact_history cache now req =
           (Some (drop (length h - KEEP_LAST) h), cache (cid := None), [])"
  using assms by (auto simp add: compact_history_def Let_def MAX_TURNS_def)

lemma chat_outcome_fields:
  "background_tasks (chat s prompt prov now cache req) =
     (case get_agent s prompt of Inl e \<Rightarrow> [] | Inr a \<Rightarrow> snd (snd (compact_history cache now req)))"
  "cache_after (chat s prompt prov now cache req) =
     (case get_agent s prompt of Inl e \<Rightarrow> cache | Inr a \<Rightarrow> fst (snd (compact_history cache now req)))"
  "history_sent (chat s prompt prov now cache req) =
     (case get_agent s prompt of Inl e \<Rightarrow> None | Inr a \<Rightarrow> fst (compact_history cache now req))"
  by (simp_all add: chat_def split_beta Let_def split: sum.splits)

lemma build_role_known [simp]:
  "build_role ''user'' = ''user''" "build_role ''assistant'' = ''model''"
  by (simp_all add: build_role_def lower_def lower_char_def)

lemma process_query_defaults:
  "process_query s a prov user_input history None None None =
     model_loop a prov (build_history history @ [Content ''user'' [user_input]])
       (generation_config a) (model_names a) \<lparr> trace = [], last_error = None \<rparr>"
  by (simp add: process_query_def request_contents_def effective_config_def model_candidates_def)

lemma chat_run:
  assumes "get_agent s prompt = Inr a"
  shows "provider_trace (chat s prompt prov now cache req) =
           trace (snd (process_query s a prov (message req) (fst (compact_history cache now req))
                         None None None))"
    and "reply (chat s prompt prov now cache req) =
           (case response (fst (process_query s a prov (message req)
                                  (fst (compact_history cache now req)) None None None)) of
              None \<Rightarrow> Inl (HTTPException 500)
            | Some t \<Rightarrow>
                Inr (ChatResponse
                       (success (fst (process_query s a prov (message req)
                                        (fst (compact_history cache now req)) None None None)))
                       t
                       (error (fst (process_query s a prov (message req)
                                      (fst (compact_history cache now req)) None None None)))))"
  using assms by (simp_all add: chat_def split_beta Let_def)

lemma compact_history_long:
  assumes "chat_history req = Some h" and "MAX_TURNS < length h"
  shows "\<exists>pre. fst (compact_history cache now req) = Some (pre @ drop (length h - 8) h)
             \<and> (pre = [] \<or> (\<exists>entry. cache (the (conversation_id req)) = Some entry
                                \<and> now < expires_at entry
                                \<and> pre = [\<lparr> role = ''assistant'', content = summary entry \<rparr>]))"
  using assms by (auto simp add: compact_history_def Let_def MAX_TURNS_def KEEP_LAST_def)

text \<open>
  C7.  For a history of at most 15 turns, the handler hands the turns to \<open>process_query\<close>
  as they are (an empty list is handed over as \<open>None\<close>, which \<open>process_query\<close> reads as no
  turns), adds no background task and leaves the cache as it is.  When the agent can be
  built, the provider calls and the reply of the handler are those of the retry and
  failover loops run on one message for each turn of the history, in order and with the
  text of the turn, followed by the user's message.
\<close>

theorem short_history_passed_unchanged:
  assumes "chat_history req = Some h" and "length h \<le> MAX_TURNS"
  shows "compact_history cache now req = (if h = [] then None else Some h, cache, [])
       \<and> build_history (fst (compact_history cache now req)) = build_history (Some h)
       \<and> background_tasks (chat s prompt prov now cache req) = []
       \<and> cache_after (chat s prompt prov now cache req) = cache
       \<and> (\<forall>a. get_agent s prompt = Inr a \<longrightarrow>
            history_sent (chat s prompt prov now cache req) = (if h = [] then None else Some h)
          \<and> (let run = model_loop a prov
                          (map (\<lambda>msg. Content (build_role (role msg)) [content msg]) h
                             @ [Content ''user'' [message req]])
                          (generation_config a) (model_names a)
                          \<lparr> trace = [], last_error = None \<rparr>
              in process_query s a prov (message req) (Some h) None None None = run
               \<and> provider_trace (chat s prompt prov now cache req) = trace (snd run)
               \<and> reply (chat s prompt prov now cache req) =
                   (case response (fst run) of
                      None \<Rightarrow> Inl (HTTPException 500)
                    | Some t \<Rightarrow> Inr (ChatResponse (success (fst run)) t (error (fst run))))))"
proof -
  have c: "compact_history cache now req = (if h = [] then None else Some h, cache, [])"
    by (rule compact_history_short[OF assms])
  have b: "build_history (if h = [] then None else Some h) = build_history (Some h)"
    by (simp add: build_history_def)
  have p: "process_query s a prov (message req) (if h = [] then None else Some h) None None None
         = process_query s a prov (message req) (Some h) None None None" for a
    by (simp only: process_query_defaults b)
  have m: "process_query s a prov (message req) (Some h) None None None
         = model_loop a prov
             (map (\<lambda>msg. Content (build_role (role msg)) [content msg]) h
                @ [Content ''user'' [message req]])
             (generation_config a) (model_names a) \<lparr> trace = [], last_error = None \<rparr>" for a
    by (simp add: process_query_defaults build_history_def)
  have r: "get_agent s prompt = Inr a \<Longrightarrow>
      provider_trace (chat s prompt prov now cache req) =
        trace (snd (process_query s a prov (message req) (Some h) None None None))
    \<and> reply (chat s prompt prov now cache req) =
        (case response (fst (process_query s a prov (message req) (Some h) None None None)) of
           None \<Rightarrow> Inl (HTTPException 500)
         | Some t \<Rightarrow>
             Inr (ChatResponse
                    (success (fst (process_query s a prov (message req) (Some h) None None None)))
                    t
                    (error (fst (process_query s a prov (message req) (Some h) None None None)))))"
    for a
    using chat_run[of s prompt a prov now cache req] by (simp only: c fst_conv p)
  show ?thesis
    using r by (auto simp add: c b chat_outcome_fields Let_def m[symmetric] split: sum.splits)
qed

theorem short_history_passed_unchanged_witness:
  "compact_history expired_cache 100 short_request = (Some recent_turns, expired_cache, [])
   \<and> background_tasks (chat example_settings ''P'' echo 100 expired_cache short_request) = []
   \<and> history_sent (chat example_settings ''P'' echo 100 expired_cache short_request)
       = Some recent_turns
   \<and> provider_trace (chat example_settings ''P'' echo 100 expired_cache short_request)
       = [GenerateContent ''A'']
   \<and> reply (chat example_settings ''P'' echo 100 expired_cache short_request)
       = Inr (ChatResponse True
                (''user:t9;user:t10;user:t11;user:t12;user:t13;user:t14;user:t15;user:t16;''
                   @ ''user:q;'') None)"
proof -
  have h: "chat_history short_request = Some recent_turns" by (simp add: short_request_def)
  have l: "length recent_turns \<le> MAX_TURNS" by (simp add: MAX_TURNS_def)
  have n: "recent_turns \<noteq> []" by (simp add: recent_turns_def)
  have g: "get_agent example_settings ''P'' = Inr example_agent"
    by (simp add: get_agent_def example_agent_built)
  have run: "model_loop example_agent echo
               (map (\<lambda>msg. Content (build_role (role msg)) [content msg]) recent_turns
                  @ [Content ''user'' [message short_request]])
               (generation_config example_agent) (model_names example_agent)
               \<lparr> trace = [], last_error = None \<rparr>
      = (\<lparr> success = True,
            response = Some (''user:t9;user:t10;user:t11;user:t12;user:t13;user:t14;user:t15;user:t16;''
                               @ ''user:q;''),
            model_used = Some ''A'', error = None \<rparr>,
         \<lparr> trace = [GenerateContent ''A''], last_error = None \<rparr>)"
    by (simp add: example_agent_def upt_3 echo_def recent_turns_def turn_def short_request_def)
  show ?thesis
    using short_history_passed_unchanged[OF h l, of expired_cache 100 example_settings "''P''" echo]
      n g
    by (simp add: Let_def run)
qed

text \<open>
  C8.  For a history of more than 15 turns, \<open>recent\<close> is the last 8 turns and \<open>older\<close> the
  turns before them.  Whatever the cache holds, the history handed to \<open>process_query\<close>
  is \<open>recent\<close> itself, or \<open>recent\<close> after one assistant turn that carries the cached summary
  of an entry that has not expired; and a background task that is added summarizes
  \<open>older\<close>, never a turn of \<open>recent\<close>.  When the agent can be built, the provider calls and
  the reply of the handler are those of the retry and failover loops run on: at most that
  one summary message, then one message for each turn of \<open>recent\<close>, in order and with the
  text of the turn, then the user's message.
\<close>

theorem recent_slice_is_last_eight:
  assumes "chat_history req = Some h" and "MAX_TURNS < length h"
  shows "(let recent = drop (length h - 8) h;
              older = take (length h - 8) h;
              (history, cache', tasks) = compact_history cache now req
          in length recent = min 8 (length h) \<and> length recent = 8 \<and> older @ recent = h
           \<and> (history = Some recent
                \<or> (\<exists>entry. cache (the (conversation_id req)) = Some entry \<and> now < expires_at entry
                      \<and> history = Some (\<lparr> role = ''assistant'', content = summary entry \<rparr> # recent)))
           \<and> (\<forall>t \<in> set tasks. t = (conversation_id req, older)))
       \<and> (\<forall>a. get_agent s prompt = Inr a \<longrightarrow>
            (\<exists>summary_message.
                (summary_message = []
                 \<or> (\<exists>entry. cache (the (conversation_id req)) = Some entry
                       \<and> now < expires_at entry
                       \<and> summary_message = [Content ''model'' [summary entry]]))
              \<and> provider_trace (chat s prompt prov now cache req) =
                  trace (snd (model_loop a prov
                                (summary_message
                                   @ map (\<lambda>msg. Content (build_role (role msg)) [content msg])
                                       (drop (length h - 8) h)
                                   @ [Content ''user'' [message req]])
                                (generation_config a) (model_names a)
                                \<lparr> trace = [], last_error = None \<rparr>))
              \<and> reply (chat s prompt prov now cache req) =
                  (case response (fst (model_loop a prov
                                         (summary_message
                                            @ map (\<lambda>msg. Content (build_role (role msg)) [content msg])
                                                (drop (length h - 8) h)
                                            @ [Content ''user'' [message req]])
                                         (generation_config a) (model_names a)
                                         \<lparr> trace = [], last_error = None \<rparr>)) of
                     None \<Rightarrow> Inl (HTTPException 500)
                   | Some t \<Rightarrow>
                       Inr (ChatResponse
                              (success (fst (model_loop a prov
                                               (summary_message
                                                  @ map (\<lambda>msg. Content (build_role (role msg))
                                                                  [content msg])
                                                      (drop (length h - 8) h)
                                                  @ [Content ''user'' [message req]])
                                               (generation_config a) (model_names a)
                                               \<lparr> trace = [], last_error = None \<rparr>)))
                              t
                              (error (fst (model_loop a prov
                                             (summary_message
                                                @ map (\<lambda>msg. Content (build_role (role msg))
                                                                [content msg])
                                                    (drop (length h - 8) h)
                                                @ [Content ''user'' [message req]])
                                             (generation_config a) (model_names a)
                                             \<lparr> trace = [], last_error = None \<rparr>)))))))"
  (is "?old \<and> ?new")
proof (rule conjI)
  show ?old
    using assms
    by (auto simp add: compact_history_def Let_def MAX_TURNS_def KEEP_LAST_def)
next
  let ?recent = "drop (length h - 8) h"
  show ?new
  proof (intro allI impI)
    fix a assume g: "get_agent s prompt = Inr a"
    from compact_history_long[OF assms, of cache now] obtain pre where
      f: "fst (compact_history cache now req) = Some (pre @ ?recent)" and
      p: "pre = [] \<or> (\<exists>entry. cache (the (conversation_id req)) = Some entry
                          \<and> now < expires_at entry
                          \<and> pre = [\<lparr> role = ''assistant'', content = summary entry \<rparr>])"
      by blast
    define sm where "sm = map (\<lambda>msg. Content (build_role (role msg)) [content msg]) pre"
    have sm: "sm = [] \<or> (\<exists>entry. cache (the (conversation_id req)) = Some entry
                              \<and> now < expires_at entry
                              \<and> sm = [Content ''model'' [summary entry]])"
      using p unfolding sm_def by auto
    have pq: "process_query s a prov (message req) (Some (pre @ ?recent)) None None None
        = model_loop a prov
            (sm @ map (\<lambda>msg. Content (build_role (role msg)) [content msg]) ?recent
               @ [Content ''user'' [message req]])
            (generation_config a) (model_names a) \<lparr> trace = [], last_error = None \<rparr>"
      unfolding sm_def by (simp add: process_query_defaults build_history_def)
    note cr = chat_run[OF g, of prov now cache req, unfolded f pq]
    show "\<exists>summary_message.
            (summary_message = []
             \<or> (\<exists>entry. cache (the (conversation_id req)) = Some entry
                   \<and> now < expires_at entry
                   \<and> summary_message = [Content ''model'' [summary entry]]))
          \<and> provider_trace (chat s prompt prov now cache req) =
              trace (snd (model_loop a prov
                            (summary_message
                               @ map (\<lambda>msg. Content (build_role (role msg)) [content msg]) ?recent
                               @ [Content ''user'' [message req]])
                            (generation_config a) (model_names a)
                            \<lparr> trace = [], last_error = None \<rparr>))
          \<and> reply (chat s prompt prov now cache req) =
              (case response (fst (model_loop a prov
                                     (summary_message
                                        @ map (\<lambda>msg. Content (build_role (role msg)) [content msg])
                                            ?recent
                                        @ [Content ''user'' [message req]])
                                     (generation_config a) (model_names a)
                                     \<lparr> trace = [], last_error = None \<rparr>)) of
                 None \<Rightarrow> Inl (HTTPException 500)
               | Some t \<Rightarrow>
                   Inr (ChatResponse
                          (success (fst (model_loop a prov
                                           (summary_message
                                              @ map (\<lambda>msg. Content (build_role (role msg))
                                                              [content msg]) ?recent
                                              @ [Content ''user'' [message req]])
                                           (generation_config a) (model_names a)
                                           \<lparr> trace = [], last_error = None \<rparr>)))
                          t
                          (error (fst (model_loop a prov
                                         (summary_message
                                            @ map (\<lambda>msg. Content (build_role (role msg))
                                                            [content msg]) ?recent
                                            @ [Content ''user'' [message req]])
                                         (generation_config a) (model_names a)
                                         \<lparr> trace = [], last_error = None \<rparr>)))))"
      by (rule exI[where x=sm]) (intro conjI sm cr)
  qed
qed

theorem recent_slice_is_last_eight_witness:
  "(let (history, cache', tasks) = compact_history fresh_cache 100 (long_request (Some ''c''))
    in drop (length (older_turns @ recent_turns) - 8) (older_turns @ recent_turns) = recent_turns
     \<and> length recent_turns = 8
     \<and> history = Some (\<lparr> role = ''assistant'', content = ''old summary'' \<rparr> # recent_turns)
     \<and> (\<forall>t \<in> set tasks. t = (Some ''c'', older_turns)))
   \<and> provider_trace (chat example_settings ''P'' echo 100 fresh_cache (long_request (Some ''c'')))
       = [GenerateContent ''A'']
   \<and> reply (chat example_settings ''P'' echo 100 fresh_cache (long_request (Some ''c'')))
       = Inr (ChatResponse True
                (''model:old summary;''
                   @ ''user:t9;user:t10;user:t11;user:t12;user:t13;user:t14;user:t15;user:t16;''
                   @ ''user:q;'') None)"
proof -
  have h: "chat_history (long_request (Some ''c'')) = Some (older_turns @ recent_turns)"
    by (simp add: long_request_def)
  have l: "MAX_TURNS < length (older_turns @ recent_turns)" by (simp add: MAX_TURNS_def)
  have d: "drop (length (older_turns @ recent_turns) - 8) (older_turns @ recent_turns) = recent_turns"
    by simp
  have c: "conversation_id (long_request (Some ''c'')) = Some ''c''" by (simp add: long_request_def)
  have e: "fresh_cache ''c'' = Some \<lparr> summary = ''old summary'', expires_at = 150 \<rparr>"
    by (simp add: fresh_cache_def)
  have x: "compact_history fresh_cache 100 (long_request (Some ''c'')) =
     (Some (\<lparr> role = ''assistant'', content = ''old summary'' \<rparr> # recent_turns), fresh_cache, [])"
    using compact_history_fresh[where req="long_request (Some ''c'')" and cache=fresh_cache
        and now=100, OF h l c _ e]
    by (simp add: KEEP_LAST_def)
  have g: "get_agent example_settings ''P'' = Inr example_agent"
    by (simp add: get_agent_def example_agent_built)
  have pq: "process_query example_settings example_agent echo (message (long_request (Some ''c'')))
              (Some (\<lparr> role = ''assistant'', content = ''old summary'' \<rparr> # recent_turns))
              None None None
      = (\<lparr> success = True,
            response = Some (''model:old summary;''
                               @ ''user:t9;user:t10;user:t11;user:t12;user:t13;user:t14;user:t15;user:t16;''
                               @ ''user:q;''),
            model_used = Some ''A'', error = None \<rparr>,
         \<lparr> trace = [GenerateContent ''A''], last_error = None \<rparr>)"
    by (simp add: process_query_defaults build_history_def example_agent_def upt_3 echo_def
        recent_turns_def turn_def long_request_def)
  note cr = chat_run[OF g, of echo 100 fresh_cache "long_request (Some ''c'')", unfolded x fst_conv pq]
  note inst = recent_slice_is_last_eight[OF h l, of fresh_cache 100 example_settings "''P''" echo]
  have first: "(let (history, cache', tasks) = compact_history fresh_cache 100 (long_request (Some ''c''))
    in drop (length (older_turns @ recent_turns) - 8) (older_turns @ recent_turns) = recent_turns
     \<and> length recent_turns = 8
     \<and> history = Some (\<lparr> role = ''assistant'', content = ''old summary'' \<rparr> # recent_turns)
     \<and> (\<forall>t \<in> set tasks. t = (Some ''c'', older_turns)))"
    using inst[THEN conjunct1] x d by simp
  have pt: "provider_trace (chat example_settings ''P'' echo 100 fresh_cache (long_request (Some ''c'')))
       = [GenerateContent ''A'']"
    using cr(1) by simp
  have rp: "reply (chat example_settings ''P'' echo 100 fresh_cache (long_request (Some ''c'')))
       = Inr (ChatResponse True
                (''model:old summary;''
                   @ ''user:t9;user:t10;user:t11;user:t12;user:t13;user:t14;user:t15;user:t16;''
                   @ ''user:q;'') None)"
    using cr(2) by simp
  show ?thesis by (intro conjI first pt rp)
qed

text \<open>
  C1.  The claim fails on the code.  A request with 16 turns and the identifier \<open>c\<close> is
  handled at time 100.  When the cache holds an entry for \<open>c\<close> that expired at time 50,
  the entry is deleted and the last 8 turns are sent without a summary, but no background
  task is added.  When the cache holds no entry for \<open>c\<close>, the same turns are sent and a
  task that summarizes the first 8 turns is added.
\<close>

theorem expired_entry_schedules_no_summarization:
  "history_sent (chat example_settings ''P'' answering 100 expired_cache (long_request (Some ''c'')))
     = Some recent_turns
   \<and> cache_after (chat example_settings ''P'' answering 100 expired_cache (long_request (Some ''c'')))
       ''c'' = None
   \<and> background_tasks (chat example_settings ''P'' answering 100 expired_cache
                          (long_request (Some ''c''))) = []
   \<and> history_sent (chat example_settings ''P'' answering 100 Map.empty (long_request (Some ''c'')))
       = Some recent_turns
   \<and> background_tasks (chat example_settings ''P'' answering 100 Map.empty
                          (long_request (Some ''c''))) = [(Some ''c'', older_turns)]"
proof -
  have h: "chat_history (long_request (Some ''c'')) = Some (older_turns @ recent_turns)"
    by (simp add: long_request_def)
  have l: "MAX_TURNS < length (older_turns @ recent_turns)" by (simp add: MAX_TURNS_def)
  have c: "conversation_id (long_request (Some ''c'')) = Some ''c''" by (simp add: long_request_def)
  have g: "get_agent example_settings ''P'' = Inr example_agent"
    by (simp add: get_agent_def example_agent_built)
  have e: "expired_cache ''c'' = Some \<lparr> summary = ''old summary'', expires_at = 50 \<rparr>"
    by (simp add: expired_cache_def)
  have x: "compact_history expired_cache 100 (long_request (Some ''c'')) =
             (Some recent_turns, expired_cache (''c'' := None), [])"
    using compact_history_expired[where req="long_request (Some ''c'')" and cache=expired_cache
        and now=100, OF h l c _ e]
    by (simp add: KEEP_LAST_def)
  have m: "compact_history Map.empty 100 (long_request (Some ''c'')) =
             (Some recent_turns, Map.empty, [(Some ''c'', older_turns)])"
    using compact_history_miss[where req="long_request (Some ''c'')" and cache=Map.empty
        and now=100, OF h l]
    by (simp add: KEEP_LAST_def c)
  show ?thesis by (simp add: chat_outcome_fields g x m)
qed

lemma retry_loop_extends:
  "\<exists>tr. trace (snd (retry_loop a prov c g m attempts st)) = trace st @ tr"
proof (induction attempts arbitrary: st)
  case Nil
  then show ?case by simp
next
  case (Cons k rest)
  show ?case
  proof (cases "m = []")
    case True
    then show ?thesis using Cons.IH[of st] by simp
  next
    case False
    show ?thesis
    proof (cases "prov (calls_made (trace st)) m c g")
      case (Response answer)
      then show ?thesis using False by simp
    next
      case (Raises cls e)
      let ?st = "\<lparr> trace = trace st @ [GenerateContent m, Sleep (base_retry_delay a * 2 ^ k)],
                    last_error = Some e \<rparr>"
      from Cons.IH[of ?st] obtain tr where
        "trace (snd (retry_loop a prov c g m rest ?st)) = trace ?st @ tr" by blast
      then show ?thesis using False Raises by simp
    qed
  qed
qed

lemma retry_loop_calls_first:
  assumes "m \<noteq> []"
  shows "\<exists>tr. trace (snd (retry_loop a prov c g m (k # rest) st)) = trace st @ GenerateContent m # tr"
proof (cases "prov (calls_made (trace st)) m c g")
  case (Response answer)
  then show ?thesis using assms by simp
next
  case (Raises cls e)
  let ?st = "\<lparr> trace = trace st @ [GenerateContent m, Sleep (base_retry_delay a * 2 ^ k)],
                last_error = Some e \<rparr>"
  from retry_loop_extends[of a prov c g m rest ?st] obtain tr where
    "trace (snd (retry_loop a prov c g m rest ?st)) = trace ?st @ tr" by blast
  then show ?thesis using assms Raises by simp
qed

lemma process_query_preferred_called:
  assumes "CognizanceAgent s prompt = Inr a" and "m \<noteq> []"
  shows "\<exists>tr. trace (snd (process_query s a prov user_input history (Some m) temp max_out))
                = GenerateContent m # tr"
proof -
  let ?c = "request_contents user_input history"
  let ?g = "effective_config s a temp max_out"
  let ?st = "\<lparr> trace = [], last_error = None \<rparr>"
  from retry_loop_calls_first[OF assms(2), of a prov ?c ?g 0 "[1, 2]" ?st] obtain tr where
    t: "trace (snd (retry_loop a prov ?c ?g m [0, 1, 2] ?st)) = GenerateContent m # tr"
    by (auto simp del: retry_loop.simps)
  have "trace (snd (model_loop a prov ?c ?g [m] ?st)) =
        trace (snd (retry_loop a prov ?c ?g m [0..<max_retries a] ?st))"
    by (simp del: retry_loop.simps split: prod.splits option.splits)
  then have "trace (snd (model_loop a prov ?c ?g [m] ?st)) = GenerateContent m # tr"
    using t by (simp only: agent_built(1)[OF assms(1)] upt_3)
  then show ?thesis using assms(2) by (simp add: process_query_def model_candidates_def)
qed

text \<open>
  C9.  The claim as stated fails for the empty identifier: the write is guarded by
  \<open>if conv_id:\<close>, and the empty string is falsy.  The summarization below succeeds with a
  text that is not empty, and the cache has no entry for the empty identifier afterwards.
\<close>

theorem empty_identifier_not_cached_counterexample:
  "success (fst (process_query example_settings example_agent answering summary_prompt
                   (Some older_turns) (Some (cheaper_model example_settings)) (Some 0.2) (Some 200)))
   \<and> response (fst (process_query example_settings example_agent answering summary_prompt
                   (Some older_turns) (Some (cheaper_model example_settings)) (Some 0.2) (Some 200)))
       = Some '' a summary ''
   \<and> fst (summarization_do example_settings example_agent answering 100 (Some []) older_turns
            Map.empty) [] = None"
proof -
  have r: "process_query example_settings example_agent answering summary_prompt
             (Some older_turns) (Some (cheaper_model example_settings)) (Some 0.2) (Some 200)
      = (\<lparr> success = True, response = Some '' a summary '', model_used = Some ''B'', error = None \<rparr>,
         \<lparr> trace = [GenerateContent ''B''], last_error = None \<rparr>)"
    by (simp add: process_query_def model_candidates_def example_cheaper_model example_agent_def
        answering_def upt_3)
  show ?thesis unfolding summarization_do_def r by simp
qed

text \<open>
  C9, as amended.  For every identifier that is not empty: when the \<open>process_query\<close> of the
  summarization job succeeds with a text that is not empty, the job maps the identifier
  to an entry that holds the stripped text and expires 21600 seconds after the time of
  the write.  Every other identifier keeps what it had, an entry the identifier had before
  is replaced, and a second successful run leaves one entry for the identifier, the later
  one.
\<close>

theorem summarization_writes_entry:
  assumes "cid \<noteq> []"
    and "process_query s a prov summary_prompt (Some older) (Some (cheaper_model s))
           (Some 0.2) (Some 200) = (r, st)"
    and "success r" and "response r = Some answer" and "answer \<noteq> []"
  shows "fst (summarization_do s a prov now (Some cid) older cache)
           = cache (cid \<mapsto> \<lparr> summary = strip answer, expires_at = now + 21600 \<rparr>)
       \<and> fst (summarization_do s a prov now (Some cid) older cache) cid
           = Some \<lparr> summary = strip answer, expires_at = now + 21600 \<rparr>
       \<and> (\<forall>k. k \<noteq> cid \<longrightarrow> fst (summarization_do s a prov now (Some cid) older cache) k = cache k)
       \<and> dom (fst (summarization_do s a prov now (Some cid) older cache)) = insert cid (dom cache)
       \<and> fst (summarization_do s a prov later (Some cid) older
                 (fst (summarization_do s a prov now (Some cid) older cache)))
           = cache (cid \<mapsto> \<lparr> summary = strip answer, expires_at = later + 21600 \<rparr>)"
proof -
  have w: "fst (summarization_do s a prov t (Some cid) older c)
             = c (cid \<mapsto> \<lparr> summary = strip answer, expires_at = t + 21600 \<rparr>)" for t c
    using assms by (simp add: summarization_do_def SUMMARY_TTL_SECONDS_def)
  show ?thesis by (simp add: w)
qed

theorem summarization_writes_entry_witness:
  "fst (summarization_do example_settings example_agent answering 100 (Some ''c'') older_turns
          expired_cache) ''c''
     = Some \<lparr> summary = ''a summary'', expires_at = 21700 \<rparr>
   \<and> dom (fst (summarization_do example_settings example_agent answering 100 (Some ''c'')
                 older_turns expired_cache)) = {''c''}"
proof -
  have r: "process_query example_settings example_agent answering summary_prompt
             (Some older_turns) (Some (cheaper_model example_settings)) (Some 0.2) (Some 200)
      = (\<lparr> success = True, response = Some '' a summary '', model_used = Some ''B'', error = None \<rparr>,
         \<lparr> trace = [GenerateContent ''B''], last_error = None \<rparr>)"
    by (simp add: process_query_def model_candidates_def example_cheaper_model example_agent_def
        answering_def upt_3)
  have s: "strip '' a summary '' = ''a summary''" by (simp add: strip_def is_space_def)
  show ?thesis
    using summarization_writes_entry[OF _ r, where cid="''c''" and answer="'' a summary ''"
        and now=100 and cache=expired_cache]
    by (simp add: s expired_cache_def)
qed

lemma summarization_do_effects:
  "snd (summarization_do s a prov now conv_id older cache) =
     trace (snd (process_query s a prov summary_prompt (Some older) (Some (cheaper_model s))
                   (Some 0.2) (Some 200)))"
  by (simp add: summarization_do_def split_beta Let_def)

lemma summarization_do_no_identifier:
  "\<not> truthy conv_id \<Longrightarrow> fst (summarization_do s a prov now conv_id older cache) = cache"
  by (simp add: summarization_do_def split_beta Let_def)

lemma run_background_task_does_nothing:
  "run_background_task s a prov now t cache = (cache, [])"
  by (simp add: run_background_task_def schedule_summarization_def)

text \<open>
  C10.  The claim fails on the code.  A request with 16 turns and no conversation
  identifier adds the background task \<open>(None, older)\<close>.  When the framework runs the task,
  the helper is called in a worker thread, \<open>asyncio.create_task\<close> raises, the exception is
  swallowed and \<open>_do\<close> never starts: the provider is not called and the cache stays as it
  is.  Had \<open>_do\<close> been started, its first effect would have been a provider call on the
  cheaper model.
\<close>

theorem background_summarization_never_starts:
  "background_tasks (chat example_settings ''P'' answering 100 Map.empty (long_request None))
     = [(None, older_turns)]
   \<and> snd (run_background_task example_settings example_agent answering 200 (None, older_turns)
            Map.empty) = []
   \<and> calls_made (snd (run_background_task example_settings example_agent answering 200
                         (None, older_turns) Map.empty)) = 0
   \<and> fst (run_background_task example_settings example_agent answering 200 (None, older_turns)
            Map.empty) ''c'' = None
   \<and> snd (summarization_do example_settings example_agent answering 200 None older_turns Map.empty)
       = [GenerateContent ''B'']"
proof -
  have h: "chat_history (long_request None) = Some (older_turns @ recent_turns)"
    by (simp add: long_request_def)
  have l: "MAX_TURNS < length (older_turns @ recent_turns)" by (simp add: MAX_TURNS_def)
  have c: "conversation_id (long_request None) = None" by (simp add: long_request_def)
  have g: "get_agent example_settings ''P'' = Inr example_agent"
    by (simp add: get_agent_def example_agent_built)
  have m: "compact_history Map.empty 100 (long_request None) =
             (Some recent_turns, Map.empty, [(None, older_turns)])"
    using compact_history_miss[where req="long_request None" and cache=Map.empty and now=100, OF h l]
    by (simp add: KEEP_LAST_def c)
  have r: "process_query example_settings example_agent answering summary_prompt
             (Some older_turns) (Some (cheaper_model example_settings)) (Some 0.2) (Some 200)
      = (\<lparr> success = True, response = Some '' a summary '', model_used = Some ''B'', error = None \<rparr>,
         \<lparr> trace = [GenerateContent ''B''], last_error = None \<rparr>)"
    by (simp add: process_query_def model_candidates_def example_cheaper_model example_agent_def
        answering_def upt_3)
  have d: "snd (summarization_do example_settings example_agent answering 200 None older_turns
                  Map.empty) = [GenerateContent ''B'']"
    unfolding summarization_do_effects r by simp
  show ?thesis
    by (simp add: chat_outcome_fields g m run_background_task_does_nothing d)
qed

end
